theory Spec2Isabelle
  imports Main
begin

section \<open>Python values, errors and strings\<close>

text \<open>
  The repository is Python glue code: two string-keyed factories for tabular readers and
  writers (\<^verbatim>\<open>backend/src/data/reader\<close>, \<^verbatim>\<open>backend/src/data/writer\<close>) and a
  configuration loader (\<^verbatim>\<open>config/name_space.py\<close>). The embedding keeps the source's
  names. Exceptions are values of \<open>error\<close> on the left of a sum; calls into third-party
  libraries (pandas, PyYAML, python-dotenv) and the built-in \<^verbatim>\<open>open\<close> are fields of a
  record \<open>world\<close> that the model takes as a parameter, and every such call is appended to
  a trace of events, so that what a call did to the outside is part of its result.

  Text is modelled on ASCII: \<open>str_lower\<close>, \<open>str_upper\<close>, \<open>str_capitalize\<close> and
  \<open>str_split\<close> are exact for ASCII strings and leave every other character alone.
\<close>

type_synonym path = string

text \<open>Dictionary keys and row labels: strings, integers and \<^verbatim>\<open>None\<close>.\<close>

datatype pykey = KStr string | KInt int | KNone

datatype column = BoolCol "bool list" | StrCol "string list"

text \<open>
  A pandas DataFrame as far as the loader looks at it: the row labels (the index) and the
  named columns, each holding booleans or strings.
\<close>

record dataframe =
  df_index :: "pykey list"
  df_columns :: "(string \<times> column) list"

datatype pyval =
    PNone
  | PBool bool
  | PInt int
  | PStr string
  | PList "pyval list"
  | PDict "(pykey \<times> pyval) list"
  | PFrame dataframe
  | PNamespace "(string \<times> pyval) list"

type_synonym kwargs = "(string \<times> pyval) list"

text \<open>
  What \<^verbatim>\<open>yaml.safe_load\<close> can return (floats, dates and binary data left out), and
  its embedding into the values of the program.
\<close>

datatype yaml =
    YNone
  | YBool bool
  | YInt int
  | YStr string
  | YList "yaml list"
  | YDict "(pykey \<times> yaml) list"

fun of_yaml :: "yaml \<Rightarrow> pyval" where
  "of_yaml YNone = PNone"
| "of_yaml (YBool b) = PBool b"
| "of_yaml (YInt i) = PInt i"
| "of_yaml (YStr s) = PStr s"
| "of_yaml (YList xs) = PList (map of_yaml xs)"
| "of_yaml (YDict kvs) = PDict (map (map_prod id of_yaml) kvs)"

datatype error =
    KeyError string
  | NameError string
  | TypeError string
  | AttributeError string
  | OSError string
  | YAMLError string
  | ValueError string

definition char_lower :: "char \<Rightarrow> char" where
  "char_lower c =
     (case map_of (zip ''ABCDEFGHIJKLMNOPQRSTUVWXYZ'' ''abcdefghijklmnopqrstuvwxyz'') c of
        Some l \<Rightarrow> l
      | None \<Rightarrow> c)"

definition char_upper :: "char \<Rightarrow> char" where
  "char_upper c =
     (case map_of (zip ''abcdefghijklmnopqrstuvwxyz'' ''ABCDEFGHIJKLMNOPQRSTUVWXYZ'') c of
        Some u \<Rightarrow> u
      | None \<Rightarrow> c)"

definition str_lower :: "string \<Rightarrow> string" where
  "str_lower s = map char_lower s"

definition str_upper :: "string \<Rightarrow> string" where
  "str_upper s = map char_upper s"

fun str_capitalize :: "string \<Rightarrow> string" where
  "str_capitalize [] = []"
| "str_capitalize (c # cs) = char_upper c # str_lower cs"

text \<open>The ASCII characters for which \<^verbatim>\<open>str.isspace\<close> holds.\<close>

definition is_space :: "char \<Rightarrow> bool" where
  "is_space c =
     (c = CHR 0x09 \<or> c = CHR 0x0A \<or> c = CHR 0x0B \<or> c = CHR 0x0C \<or> c = CHR 0x0D \<or>
      c = CHR 0x1C \<or> c = CHR 0x1D \<or> c = CHR 0x1E \<or> c = CHR 0x1F \<or> c = CHR 0x20)"

text \<open>
  \<^verbatim>\<open>s.split()\<close> without arguments: the maximal runs of non-space characters, in order;
  \<open>cur\<close> is the word read so far.
\<close>

fun split_words :: "string \<Rightarrow> string \<Rightarrow> string list" where
  "split_words cur [] = (if cur = [] then [] else [cur])"
| "split_words cur (c # cs) =
     (if is_space c then (if cur = [] then split_words [] cs else cur # split_words [] cs)
      else split_words (cur @ [c]) cs)"

definition str_split :: "string \<Rightarrow> string list" where
  "str_split s = split_words [] s"

fun str_join :: "string \<Rightarrow> string list \<Rightarrow> string" where
  "str_join sep [] = []"
| "str_join sep [w] = w"
| "str_join sep (w # ws) = w @ sep @ str_join sep ws"


section \<open>The outside world\<close>

datatype reader_class = CSVReader | ExcelReader

datatype event =
    NewReader reader_class pyval
  | PdReadCsv path kwargs
  | PdReadExcel path kwargs
  | OpenFile path
  | CloseFile path
  | YamlSafeLoad string
  | DotenvValues yaml

text \<open>
  What the libraries answer. \<open>pd_read_csv\<close> and \<open>pd_read_excel\<close> are
  \<^verbatim>\<open>pandas.read_csv(path, **kwargs)\<close> and \<^verbatim>\<open>pandas.read_excel(path, **kwargs)\<close>;
  \<open>pd_read_excel_sheets\<close> is \<^verbatim>\<open>pandas.read_excel(io, sheet_name=None, index_col=c)\<close>,
  which pandas documents to return a dict from sheet name to DataFrame, in sheet order;
  \<open>builtin_open\<close> is \<^verbatim>\<open>open(path, 'r')\<close>, giving the text of the file;
  \<open>yaml_safe_load\<close> is \<^verbatim>\<open>yaml.safe_load\<close> on that text;
  \<open>dotenv_values\<close> is \<^verbatim>\<open>dotenv.dotenv_values(dotenv_path=v)\<close>, whose result is
  an ordered dict from names to strings or \<^verbatim>\<open>None\<close>.
  The files do not change while the program runs: the answers depend on the arguments
  only.
\<close>

record world =
  pd_read_csv :: "path \<Rightarrow> kwargs \<Rightarrow> error + pyval"
  pd_read_excel :: "path \<Rightarrow> kwargs \<Rightarrow> error + pyval"
  pd_read_excel_sheets :: "path \<Rightarrow> string \<Rightarrow> error + (string \<times> dataframe) list"
  builtin_open :: "path \<Rightarrow> error + string"
  yaml_safe_load :: "string \<Rightarrow> error + yaml"
  dotenv_values :: "yaml \<Rightarrow> error + (string \<times> string option) list"


section \<open>Reader factory\<close>

text \<open>
  \<^verbatim>\<open>backend/src/data/reader/interface.py\<close>: \<^verbatim>\<open>IReader.__init__\<close> stores the
  configuration; both concrete readers inherit it and override \<^verbatim>\<open>read\<close>.
\<close>

record reader =
  reader_class :: reader_class
  reader_cfg :: pyval

definition IReader_init :: "reader_class \<Rightarrow> pyval \<Rightarrow> event list \<Rightarrow> reader \<times> event list" where
  "IReader_init cls c tr = (\<lparr>reader_class = cls, reader_cfg = c\<rparr>, tr @ [NewReader cls c])"

text \<open>
  \<^verbatim>\<open>CSVReader.read\<close> (\<^verbatim>\<open>csv.py\<close>, lines 5-6) and \<^verbatim>\<open>ExcelReader.read\<close>
  (\<^verbatim>\<open>excel.py\<close>, lines 5-6): the body is the single statement
  \<^verbatim>\<open>df = pd.read_csv(path, **kwargs)\<close> (\<^verbatim>\<open>pd.read_excel\<close> for Excel). There is no
  \<^verbatim>\<open>return\<close>, so a call that does not raise evaluates to \<^verbatim>\<open>None\<close>.
\<close>

definition CSVReader_read ::
  "world \<Rightarrow> reader \<Rightarrow> path \<Rightarrow> kwargs \<Rightarrow> event list \<Rightarrow> (error + pyval) \<times> event list" where
  "CSVReader_read w self p kw tr =
     (case pd_read_csv w p kw of
        Inl e \<Rightarrow> (Inl e, tr @ [PdReadCsv p kw])
      | Inr df \<Rightarrow> (Inr PNone, tr @ [PdReadCsv p kw]))"

definition ExcelReader_read ::
  "world \<Rightarrow> reader \<Rightarrow> path \<Rightarrow> kwargs \<Rightarrow> event list \<Rightarrow> (error + pyval) \<times> event list" where
  "ExcelReader_read w self p kw tr =
     (case pd_read_excel w p kw of
        Inl e \<Rightarrow> (Inl e, tr @ [PdReadExcel p kw])
      | Inr df \<Rightarrow> (Inr PNone, tr @ [PdReadExcel p kw]))"

text \<open>Method lookup of \<^verbatim>\<open>.read\<close> on a reader instance.\<close>

definition reader_read ::
  "world \<Rightarrow> reader \<Rightarrow> path \<Rightarrow> kwargs \<Rightarrow> event list \<Rightarrow> (error + pyval) \<times> event list" where
  "reader_read w self =
     (case reader_class self of
        CSVReader \<Rightarrow> CSVReader_read w self
      | ExcelReader \<Rightarrow> ExcelReader_read w self)"

record DataReaderFactory =
  reader_factory_cfg :: pyval

definition reader_dict :: "string \<rightharpoonup> reader_class" where
  "reader_dict = [''csv'' \<mapsto> CSVReader, ''excel'' \<mapsto> ExcelReader]"

text \<open>
  \<^verbatim>\<open>DataReaderFactory.read\<close> (\<^verbatim>\<open>factory.py\<close>, lines 9-14):
  \<^verbatim>\<open>return reader_dict[source.lower()](cfg = self.cfg).read(path, **kwargs)\<close>.
  The subscript is evaluated first and raises \<^verbatim>\<open>KeyError\<close> on a missing key.
\<close>

definition DataReaderFactory_read ::
  "world \<Rightarrow> DataReaderFactory \<Rightarrow> string \<Rightarrow> path \<Rightarrow> kwargs \<Rightarrow> event list
     \<Rightarrow> (error + pyval) \<times> event list" where
  "DataReaderFactory_read w self source p kw tr =
     (case reader_dict (str_lower source) of
        None \<Rightarrow> (Inl (KeyError (str_lower source)), tr)
      | Some cls \<Rightarrow>
          (case IReader_init cls (reader_factory_cfg self) tr of
             (r, tr1) \<Rightarrow> reader_read w r p kw tr1))"


section \<open>Writer factory\<close>

text \<open>
  \<^verbatim>\<open>backend/src/data/writer\<close> declares the abstract class \<^verbatim>\<open>IWriter\<close> and no
  concrete writer. Instantiating a class with an abstract method raises
  \<^verbatim>\<open>TypeError\<close>.
\<close>

datatype writer_class = IWriter

record DataWriterFactory =
  writer_factory_cfg :: pyval

definition writers_dict :: "string \<rightharpoonup> writer_class" where
  "writers_dict = Map.empty"

text \<open>
  \<^verbatim>\<open>DataWriterFactory.write\<close> (\<^verbatim>\<open>factory.py\<close>, lines 8-12):
  \<^verbatim>\<open>return writers_dict[source.lower()](cfg = self.cfg).write(df, path, **kwargs)\<close>
  with \<^verbatim>\<open>writers_dict = {}\<close>.
\<close>

definition DataWriterFactory_write ::
  "world \<Rightarrow> DataWriterFactory \<Rightarrow> string \<Rightarrow> pyval \<Rightarrow> path \<Rightarrow> kwargs \<Rightarrow> event list
     \<Rightarrow> (error + pyval) \<times> event list" where
  "DataWriterFactory_write w self source df p kw tr =
     (case writers_dict (str_lower source) of
        None \<Rightarrow> (Inl (KeyError (str_lower source)), tr)
      | Some IWriter \<Rightarrow> (Inl (TypeError ''abstract class IWriter''), tr))"


section \<open>Configuration factory\<close>

subsection \<open>Dictionaries and DataFrames\<close>

text \<open>
  \<^verbatim>\<open>d[k] = v\<close> on a dict kept as an association list in insertion order: an existing
  key keeps its place and gets the new value, a new key goes to the end.
\<close>

fun dict_setitem :: "(pykey \<times> pyval) list \<Rightarrow> pykey \<Rightarrow> pyval \<Rightarrow> (pykey \<times> pyval) list" where
  "dict_setitem [] k v = [(k, v)]"
| "dict_setitem ((k', v') # d) k v =
     (if k' = k then (k', v) # d else (k', v') # dict_setitem d k v)"

text \<open>\<^verbatim>\<open>y[k]\<close> for a string \<open>k\<close> on a value loaded from YAML.\<close>

fun yaml_getitem :: "yaml \<Rightarrow> string \<Rightarrow> error + yaml" where
  "yaml_getitem (YDict kvs) k =
     (case map_of kvs (KStr k) of None \<Rightarrow> Inl (KeyError k) | Some v \<Rightarrow> Inr v)"
| "yaml_getitem (YList xs) k = Inl (TypeError ''list indices must be integers or slices'')"
| "yaml_getitem (YStr s) k = Inl (TypeError ''string indices must be integers'')"
| "yaml_getitem YNone k = Inl (TypeError ''object is not subscriptable'')"
| "yaml_getitem (YBool b) k = Inl (TypeError ''object is not subscriptable'')"
| "yaml_getitem (YInt i) k = Inl (TypeError ''object is not subscriptable'')"

text \<open>\<^verbatim>\<open>df[c]\<close>: the column named \<open>c\<close>.\<close>

definition df_getitem :: "dataframe \<Rightarrow> string \<Rightarrow> error + column" where
  "df_getitem df c =
     (case map_of (df_columns df) c of None \<Rightarrow> Inl (KeyError c) | Some col \<Rightarrow> Inr col)"

text \<open>\<^verbatim>\<open>a | b\<close> on two columns of one frame: element-wise on booleans.\<close>

fun series_or :: "column \<Rightarrow> column \<Rightarrow> error + bool list" where
  "series_or (BoolCol a) (BoolCol b) = Inr (map2 (\<or>) a b)"
| "series_or a b = Inl (TypeError ''unsupported operand type(s) for |'')"

fun cell_values :: "column \<Rightarrow> pyval list" where
  "cell_values (BoolCol bs) = map PBool bs"
| "cell_values (StrCol ss) = map PStr ss"

text \<open>
  \<^verbatim>\<open>df.loc[mask, c]\<close>: column \<open>c\<close> restricted to the rows where \<open>flags\<close> holds, as
  pairs of row label and value in row order.
\<close>

definition df_loc :: "dataframe \<Rightarrow> bool list \<Rightarrow> string \<Rightarrow> error + (pykey \<times> pyval) list" where
  "df_loc df flags c =
     (case map_of (df_columns df) c of
        None \<Rightarrow> Inl (KeyError c)
      | Some col \<Rightarrow> Inr (map snd (filter fst (zip flags (zip (df_index df) (cell_values col))))))"

text \<open>\<^verbatim>\<open>Series.to_dict()\<close>: a repeated label keeps its first place and its last value.\<close>

definition series_to_dict :: "(pykey \<times> pyval) list \<Rightarrow> (pykey \<times> pyval) list" where
  "series_to_dict items = foldl (\<lambda>d (k, v). dict_setitem d k v) [] items"

subsection \<open>\<^verbatim>\<open>dict_to_namespace\<close>\<close>

text \<open>
  \<^verbatim>\<open>SimpleNamespace(**d)\<close>: every key of \<open>d\<close> must be a string, otherwise the call
  raises \<^verbatim>\<open>TypeError\<close>.
\<close>

fun str_keywords :: "(pykey \<times> pyval) list \<Rightarrow> (string \<times> pyval) list option" where
  "str_keywords [] = Some []"
| "str_keywords ((KStr s, v) # rest) = map_option ((#) (s, v)) (str_keywords rest)"
| "str_keywords ((k, v) # rest) = None"

definition SimpleNamespace :: "(pykey \<times> pyval) list \<Rightarrow> error + pyval" where
  "SimpleNamespace kvs =
     (case str_keywords kvs of
        None \<Rightarrow> Inl (TypeError ''keywords must be strings'')
      | Some fs \<Rightarrow> Inr (PNamespace fs))"

text \<open>
  \<^verbatim>\<open>ConfigFactory.dict_to_namespace\<close> (\<^verbatim>\<open>name_space.py\<close>, lines 11-15):
  \<^verbatim>\<open>if isinstance(map_obj, dict):\<close>
  \<^verbatim>\<open>    return SimpleNamespace(**{key: self.dict_to_namespace(value) for key, value in map_obj.items()})\<close>
  \<^verbatim>\<open>else: return map_obj\<close>.
  \<open>convert_items\<close> is the dict comprehension: it converts the values in order and is
  finished before \<^verbatim>\<open>SimpleNamespace\<close> is called. The interpreter's limit on the depth
  of recursion is not modelled.
\<close>

function dict_to_namespace :: "pyval \<Rightarrow> error + pyval"
  and convert_items :: "(pykey \<times> pyval) list \<Rightarrow> error + (pykey \<times> pyval) list" where
  "dict_to_namespace (PDict kvs) =
     (case convert_items kvs of Inl e \<Rightarrow> Inl e | Inr kvs' \<Rightarrow> SimpleNamespace kvs')"
| "dict_to_namespace PNone = Inr PNone"
| "dict_to_namespace (PBool b) = Inr (PBool b)"
| "dict_to_namespace (PInt i) = Inr (PInt i)"
| "dict_to_namespace (PStr s) = Inr (PStr s)"
| "dict_to_namespace (PList xs) = Inr (PList xs)"
| "dict_to_namespace (PFrame d) = Inr (PFrame d)"
| "dict_to_namespace (PNamespace fs) = Inr (PNamespace fs)"
| "convert_items [] = Inr []"
| "convert_items ((k, v) # rest) =
     (case dict_to_namespace v of
        Inl e \<Rightarrow> Inl e
      | Inr v' \<Rightarrow>
          (case convert_items rest of Inl e \<Rightarrow> Inl e | Inr rest' \<Rightarrow> Inr ((k, v') # rest')))"
  by pat_completeness auto
termination
  by (relation "measure (\<lambda>x. case x of Inl v \<Rightarrow> size v
                               | Inr kvs \<Rightarrow> size_list (size_prod (\<lambda>_. 0) size) kvs)") auto

subsection \<open>\<^verbatim>\<open>initialize\<close>\<close>

record ConfigFactory =
  yaml_path :: path

text \<open>
  The names a module binds at top level. \<^verbatim>\<open>name_space.py\<close>, lines 1-7, binds
  \<^verbatim>\<open>SimpleNamespace\<close>, \<^verbatim>\<open>os\<close>, \<^verbatim>\<open>dotenv_values\<close>, \<^verbatim>\<open>safe_load\<close>,
  \<^verbatim>\<open>Template\<close> and \<^verbatim>\<open>ConfigFactory\<close>; it has no \<^verbatim>\<open>import pandas as pd\<close>.
  A name that is neither there nor a built-in raises \<^verbatim>\<open>NameError\<close> when it is read.
\<close>

datatype binding = Module string | Function string | Class string

definition module_globals :: "string \<rightharpoonup> binding" where
  "module_globals =
     [''SimpleNamespace'' \<mapsto> Class ''types.SimpleNamespace'',
      ''os'' \<mapsto> Module ''os'',
      ''dotenv_values'' \<mapsto> Function ''dotenv.dotenv_values'',
      ''safe_load'' \<mapsto> Function ''yaml.safe_load'',
      ''Template'' \<mapsto> Class ''string.Template'',
      ''ConfigFactory'' \<mapsto> Class ''ConfigFactory'']"

text \<open>
  Evaluating \<^verbatim>\<open>pd.read_excel\<close> in the global namespace \<open>g\<close>: the name \<^verbatim>\<open>pd\<close> is
  looked up, then its attribute; only the pandas module has it.
\<close>

definition lookup_pd_read_excel :: "(string \<rightharpoonup> binding) \<Rightarrow> error + unit" where
  "lookup_pd_read_excel g =
     (case g ''pd'' of
        None \<Rightarrow> Inl (NameError ''pd'')
      | Some b \<Rightarrow> (if b = Module ''pandas'' then Inr () else Inl (AttributeError ''read_excel'')))"

text \<open>
  Lines 18-19: \<^verbatim>\<open>with open(self.yaml_path, 'r') as yaml_file:\<close>
  \<^verbatim>\<open>    yaml_dict = safe_load(stream=yaml_file)\<close>. Leaving the \<^verbatim>\<open>with\<close> block closes
  the file, also when \<^verbatim>\<open>safe_load\<close> raises.
\<close>

definition load_yaml :: "world \<Rightarrow> path \<Rightarrow> event list \<Rightarrow> (error + yaml) \<times> event list" where
  "load_yaml w p tr =
     (case builtin_open w p of
        Inl e \<Rightarrow> (Inl e, tr @ [OpenFile p])
      | Inr content \<Rightarrow>
          (yaml_safe_load w content, tr @ [OpenFile p, YamlSafeLoad content, CloseFile p]))"

text \<open>
  The body of the loop, lines 25-26, for one sheet:
  \<^verbatim>\<open>schema_dict['_'.join(word.upper() for word in sheet_name.split())] = schema_df\<close>
  \<^verbatim>\<open>col_dict['_'.join(word.capitalize() for word in sheet_name.split())] =\<close>
  \<^verbatim>\<open>    schema_df.loc[schema_df['IS Derived?'] | schema_df['Is Read?'], 'Name'].to_dict()\<close>
  and the loop over all sheets, which stops at the first sheet that raises.
\<close>

definition schema_key :: "string \<Rightarrow> string" where
  "schema_key sheet_name = str_join ''_'' (map str_upper (str_split sheet_name))"

definition col_key :: "string \<Rightarrow> string" where
  "col_key sheet_name = str_join ''_'' (map str_capitalize (str_split sheet_name))"

definition read_columns :: "dataframe \<Rightarrow> error + (pykey \<times> pyval) list" where
  "read_columns schema_df =
     (case df_getitem schema_df ''IS Derived?'' of
        Inl e \<Rightarrow> Inl e
      | Inr a \<Rightarrow>
     (case df_getitem schema_df ''Is Read?'' of
        Inl e \<Rightarrow> Inl e
      | Inr b \<Rightarrow>
     (case series_or a b of
        Inl e \<Rightarrow> Inl e
      | Inr flags \<Rightarrow>
     (case df_loc schema_df flags ''Name'' of
        Inl e \<Rightarrow> Inl e
      | Inr s \<Rightarrow> Inr (series_to_dict s)))))"

fun load_sheets ::
  "(string \<times> dataframe) list \<Rightarrow> (pykey \<times> pyval) list \<Rightarrow> (pykey \<times> pyval) list
     \<Rightarrow> error + (pykey \<times> pyval) list \<times> (pykey \<times> pyval) list" where
  "load_sheets [] schema_dict col_dict = Inr (schema_dict, col_dict)"
| "load_sheets ((sheet_name, schema_df) # rest) schema_dict col_dict =
     (case read_columns schema_df of
        Inl e \<Rightarrow> Inl e
      | Inr cols \<Rightarrow>
          load_sheets rest
            (dict_setitem schema_dict (KStr (schema_key sheet_name)) (PFrame schema_df))
            (dict_setitem col_dict (KStr (col_key sheet_name)) (PDict cols)))"

text \<open>
  Line 24, the iterable of the loop:
  \<^verbatim>\<open>pd.read_excel(io=r'data/config/schema.xlsx', sheet_name=None, index_col='Variable').items()\<close>.
\<close>

definition load_schema ::
  "(string \<rightharpoonup> binding) \<Rightarrow> world \<Rightarrow> event list
     \<Rightarrow> (error + (pykey \<times> pyval) list \<times> (pykey \<times> pyval) list) \<times> event list" where
  "load_schema g w tr =
     (case lookup_pd_read_excel g of
        Inl e \<Rightarrow> (Inl e, tr)
      | Inr u \<Rightarrow>
          (let tr' = tr @ [PdReadExcel ''data/config/schema.xlsx''
                             [(''sheet_name'', PNone), (''index_col'', PStr ''Variable'')]]
           in case pd_read_excel_sheets w ''data/config/schema.xlsx'' ''Variable'' of
                Inl e \<Rightarrow> (Inl e, tr')
              | Inr sheets \<Rightarrow> (load_sheets sheets [] [], tr')))"

text \<open>
  Lines 28-34, the dict display, evaluated entry by entry:
  \<^verbatim>\<open>'Path': yaml_dict['Path']\<close>,
  \<^verbatim>\<open>'Secret': dotenv_values(dotenv_path = yaml_dict['Path']['ENV'])\<close>,
  \<^verbatim>\<open>'Param': yaml_dict['Param']\<close>.
\<close>

definition secret_dict :: "(string \<times> string option) list \<Rightarrow> pyval" where
  "secret_dict kvs =
     PDict (map (\<lambda>(k, v). (KStr k, case v of None \<Rightarrow> PNone | Some s \<Rightarrow> PStr s)) kvs)"

definition build_ns_dict ::
  "world \<Rightarrow> yaml \<Rightarrow> (pykey \<times> pyval) list \<Rightarrow> (pykey \<times> pyval) list \<Rightarrow> event list
     \<Rightarrow> (error + pyval) \<times> event list" where
  "build_ns_dict w yaml_dict schema_dict col_dict tr =
     (case yaml_getitem yaml_dict ''Path'' of
        Inl e \<Rightarrow> (Inl e, tr)
      | Inr path_v \<Rightarrow>
     (case yaml_getitem path_v ''ENV'' of
        Inl e \<Rightarrow> (Inl e, tr)
      | Inr env_v \<Rightarrow>
     (case dotenv_values w env_v of
        Inl e \<Rightarrow> (Inl e, tr @ [DotenvValues env_v])
      | Inr secrets \<Rightarrow>
     (case yaml_getitem yaml_dict ''Param'' of
        Inl e \<Rightarrow> (Inl e, tr @ [DotenvValues env_v])
      | Inr param_v \<Rightarrow>
          (Inr (PDict [(KStr ''Schema'', PDict schema_dict),
                       (KStr ''Col'', PDict col_dict),
                       (KStr ''Path'', of_yaml path_v),
                       (KStr ''Secret'', secret_dict secrets),
                       (KStr ''Param'', of_yaml param_v)]),
           tr @ [DotenvValues env_v])))))"

text \<open>
  \<^verbatim>\<open>ConfigFactory.initialize\<close> (lines 17-35) run in the global namespace \<open>g\<close>.
  Only the lookup of \<^verbatim>\<open>pd\<close> goes through \<open>g\<close>: the other names the method reads
  (\<^verbatim>\<open>open\<close>, \<^verbatim>\<open>safe_load\<close>, \<^verbatim>\<open>dotenv_values\<close>, \<^verbatim>\<open>SimpleNamespace\<close>) are
  built in or bound by lines 1-5. The method assigns to no attribute of \<^verbatim>\<open>self\<close>; the
  factory is returned beside the result so that this can be stated.
\<close>

definition initialize_in ::
  "(string \<rightharpoonup> binding) \<Rightarrow> world \<Rightarrow> ConfigFactory \<Rightarrow> event list
     \<Rightarrow> (error + pyval) \<times> ConfigFactory \<times> event list" where
  "initialize_in g w self tr =
     (case load_yaml w (yaml_path self) tr of
        (Inl e, tr1) \<Rightarrow> (Inl e, self, tr1)
      | (Inr yaml_dict, tr1) \<Rightarrow>
     (case load_schema g w tr1 of
        (Inl e, tr2) \<Rightarrow> (Inl e, self, tr2)
      | (Inr (schema_dict, col_dict), tr2) \<Rightarrow>
     (case build_ns_dict w yaml_dict schema_dict col_dict tr2 of
        (Inl e, tr3) \<Rightarrow> (Inl e, self, tr3)
      | (Inr ns_dict, tr3) \<Rightarrow> (dict_to_namespace ns_dict, self, tr3))))"

text \<open>The method as the module has it: run in the module's own global namespace.\<close>

definition initialize ::
  "world \<Rightarrow> ConfigFactory \<Rightarrow> event list \<Rightarrow> (error + pyval) \<times> ConfigFactory \<times> event list" where
  "initialize = initialize_in module_globals"


section \<open>Example inputs\<close>

text \<open>
  A schema sheet named \<^verbatim>\<open>Account Name\<close> with three rows, of which only the first is
  flagged (\<^verbatim>\<open>Is Read?\<close>); a YAML document with \<^verbatim>\<open>Path.ENV = "secrets.env"\<close> and a
  \<^verbatim>\<open>Param\<close> block; and a world in which \<^verbatim>\<open>config.yaml\<close>, \<^verbatim>\<open>data.csv\<close>,
  \<^verbatim>\<open>data.xlsx\<close>, the schema spreadsheet and the secrets file exist and are well-formed.
\<close>

definition example_frame :: dataframe where
  "example_frame =
     \<lparr>df_index = [KStr ''acc_id'', KStr ''acc_nm'', KStr ''acc_tmp''],
      df_columns = [(''Name'', StrCol [''Account Id'', ''Account Name'', ''Temp'']),
                    (''IS Derived?'', BoolCol [False, False, False]),
                    (''Is Read?'', BoolCol [True, False, False])]\<rparr>"

definition example_yaml :: yaml where
  "example_yaml =
     YDict [(KStr ''Path'', YDict [(KStr ''ENV'', YStr ''secrets.env'')]),
            (KStr ''Param'', YDict [(KStr ''rate'', YInt 3)])]"

definition example_world :: world where
  "example_world =
     \<lparr>pd_read_csv =
        (\<lambda>p kw. if p = ''data.csv'' then Inr (PFrame example_frame) else Inl (OSError p)),
      pd_read_excel =
        (\<lambda>p kw. if p = ''data.xlsx'' then Inr (PFrame example_frame) else Inl (OSError p)),
      pd_read_excel_sheets =
        (\<lambda>p c. if p = ''data/config/schema.xlsx'' \<and> c = ''Variable''
                then Inr [(''Account Name'', example_frame)] else Inl (OSError p)),
      builtin_open =
        (\<lambda>p. if p = ''config.yaml'' then Inr ''Path: ...'' else Inl (OSError p)),
      yaml_safe_load =
        (\<lambda>s. if s = ''Path: ...'' then Inr example_yaml else Inl (YAMLError s)),
      dotenv_values =
        (\<lambda>v. if v = YStr ''secrets.env'' then Inr [(''TOKEN'', Some ''abc'')] else Inr [])\<rparr>"

text \<open>The module's namespace as it would be with \<^verbatim>\<open>import pandas as pd\<close> added.\<close>

definition pandas_globals :: "string \<rightharpoonup> binding" where
  "pandas_globals = module_globals(''pd'' \<mapsto> Module ''pandas'')"


text \<open>
  Worlds in which one step of the loader fails: the YAML text does not parse; the schema
  spreadsheet cannot be read; its sheet lacks the flag columns; the YAML document has no
  \<^verbatim>\<open>Path\<close>; it has \<^verbatim>\<open>Path\<close> without \<^verbatim>\<open>ENV\<close>; the secrets file cannot be read.
\<close>

definition world_bad_yaml :: world where
  "world_bad_yaml = example_world\<lparr>yaml_safe_load := (\<lambda>s. Inl (YAMLError s))\<rparr>"

definition world_no_schema :: world where
  "world_no_schema = example_world\<lparr>pd_read_excel_sheets := (\<lambda>p c. Inl (OSError p))\<rparr>"

definition world_bad_sheet :: world where
  "world_bad_sheet =
     example_world\<lparr>pd_read_excel_sheets :=
       (\<lambda>p c. Inr [(''Account Name'',
                     \<lparr>df_index = [KStr ''acc_id''],
                      df_columns = [(''Name'', StrCol [''Account Id''])]\<rparr>)])\<rparr>"

definition world_no_path :: world where
  "world_no_path =
     example_world\<lparr>yaml_safe_load := (\<lambda>s. Inr (YDict [(KStr ''Param'', YDict [])]))\<rparr>"

definition world_no_env :: world where
  "world_no_env =
     example_world\<lparr>yaml_safe_load :=
       (\<lambda>s. Inr (YDict [(KStr ''Path'', YDict []), (KStr ''Param'', YDict [])]))\<rparr>"

definition world_no_secrets :: world where
  "world_no_secrets = example_world\<lparr>dotenv_values := (\<lambda>v. Inl (OSError ''secrets.env''))\<rparr>"


section \<open>Notions used in the statements\<close>





text \<open>
  Two calls of \<^verbatim>\<open>initialize\<close> on the same factory, one after the other: the second runs
  on the factory and in the trace the first one left.
\<close>

definition initialize_twice ::
  "(string \<rightharpoonup> binding) \<Rightarrow> world \<Rightarrow> ConfigFactory \<Rightarrow> event list
     \<Rightarrow> (error + pyval) \<times> (error + pyval) \<times> ConfigFactory \<times> event list" where
  "initialize_twice g w self tr =
     (case initialize_in g w self tr of
        (r1, self1, tr1) \<Rightarrow>
          (case initialize_in g w self1 tr1 of
             (r2, self2, tr2) \<Rightarrow> (r1, r2, self2, tr2)))"


section \<open>Properties of the factories\<close>

lemma reader_dict_csv: "reader_dict ''csv'' = Some CSVReader"
  by (simp add: reader_dict_def)

lemma reader_dict_excel: "reader_dict ''excel'' = Some ExcelReader"
  by (simp add: reader_dict_def)

lemma reader_dict_other: "k \<noteq> ''csv'' \<Longrightarrow> k \<noteq> ''excel'' \<Longrightarrow> reader_dict k = None"
  by (simp add: reader_dict_def)

text \<open>
  Whatever the format, the path and the world: when \<^verbatim>\<open>DataReaderFactory.read\<close> returns
  at all, it returns \<^verbatim>\<open>None\<close>, never the table pandas loaded.
\<close>

lemma read_never_returns_table:
  "fst (DataReaderFactory_read w self source p kw tr) = Inr v \<Longrightarrow> v = PNone"
  by (auto simp: DataReaderFactory_read_def IReader_init_def reader_read_def CSVReader_read_def
        ExcelReader_read_def split: option.splits reader_class.splits sum.splits)

text \<open>
  C1 (the call returns the table loaded by the matched handler's \<^verbatim>\<open>read\<close>). The code
  does not: with the format name \<^verbatim>\<open>csv\<close> and the readable, well-formed file
  \<^verbatim>\<open>data.csv\<close>, pandas loads \<open>example_frame\<close>, the handler drops it, and the factory
  returns \<^verbatim>\<open>None\<close>. \<^verbatim>\<open>CSVReader.read\<close> is annotated \<^verbatim>\<open>-> pd.DataFrame\<close> and has
  no \<^verbatim>\<open>return\<close> statement.
\<close>

theorem read_discards_loaded_table:
  "pd_read_csv example_world ''data.csv'' [] = Inr (PFrame example_frame) \<and>
   DataReaderFactory_read example_world \<lparr>reader_factory_cfg = PNone\<rparr> ''csv'' ''data.csv'' [] []
     = (Inr PNone, [NewReader CSVReader PNone, PdReadCsv ''data.csv'' []])"
  by (simp add: DataReaderFactory_read_def str_lower_def char_lower_def reader_dict_def
        IReader_init_def reader_read_def CSVReader_read_def example_world_def)

text \<open>
  C2. When the lower-cased format name is \<^verbatim>\<open>csv\<close>, the factory's call is the call of
  \<^verbatim>\<open>CSVReader.read\<close> on an instance built with the factory's own configuration, with the
  path and the keyword options it was given, and what happens outside is exactly: one
  \<^verbatim>\<open>CSVReader\<close> is created with that configuration, then \<^verbatim>\<open>pd.read_csv\<close> is called
  with that path and those options. Likewise \<^verbatim>\<open>excel\<close>, \<^verbatim>\<open>ExcelReader\<close> and
  \<^verbatim>\<open>pd.read_excel\<close>.
\<close>

theorem read_dispatches_to_handler:
  "(str_lower source = ''csv'' \<longrightarrow>
      DataReaderFactory_read w self source p kw tr
        = CSVReader_read w \<lparr>reader_class = CSVReader, reader_cfg = reader_factory_cfg self\<rparr> p kw
            (tr @ [NewReader CSVReader (reader_factory_cfg self)]) \<and>
      snd (DataReaderFactory_read w self source p kw tr)
        = tr @ [NewReader CSVReader (reader_factory_cfg self), PdReadCsv p kw]) \<and>
   (str_lower source = ''excel'' \<longrightarrow>
      DataReaderFactory_read w self source p kw tr
        = ExcelReader_read w \<lparr>reader_class = ExcelReader, reader_cfg = reader_factory_cfg self\<rparr> p kw
            (tr @ [NewReader ExcelReader (reader_factory_cfg self)]) \<and>
      snd (DataReaderFactory_read w self source p kw tr)
        = tr @ [NewReader ExcelReader (reader_factory_cfg self), PdReadExcel p kw])"
  by (auto simp: DataReaderFactory_read_def reader_dict_def IReader_init_def reader_read_def
        CSVReader_read_def ExcelReader_read_def split: sum.splits)

theorem read_dispatches_to_handler_witness:
  "str_lower ''CSV'' = ''csv'' \<and>
   DataReaderFactory_read example_world \<lparr>reader_factory_cfg = PInt 7\<rparr> ''CSV'' ''data.csv''
       [(''sep'', PStr '';'')] []
     = CSVReader_read example_world \<lparr>reader_class = CSVReader, reader_cfg = PInt 7\<rparr> ''data.csv''
         [(''sep'', PStr '';'')] [NewReader CSVReader (PInt 7)] \<and>
   snd (DataReaderFactory_read example_world \<lparr>reader_factory_cfg = PInt 7\<rparr> ''CSV'' ''data.csv''
       [(''sep'', PStr '';'')] [])
     = [NewReader CSVReader (PInt 7), PdReadCsv ''data.csv'' [(''sep'', PStr '';'')]] \<and>
   str_lower ''Excel'' = ''excel'' \<and>
   DataReaderFactory_read example_world \<lparr>reader_factory_cfg = PInt 7\<rparr> ''Excel'' ''data.xlsx''
       [(''header'', PInt 0)] []
     = ExcelReader_read example_world \<lparr>reader_class = ExcelReader, reader_cfg = PInt 7\<rparr> ''data.xlsx''
         [(''header'', PInt 0)] [NewReader ExcelReader (PInt 7)] \<and>
   snd (DataReaderFactory_read example_world \<lparr>reader_factory_cfg = PInt 7\<rparr> ''Excel'' ''data.xlsx''
       [(''header'', PInt 0)] [])
     = [NewReader ExcelReader (PInt 7), PdReadExcel ''data.xlsx'' [(''header'', PInt 0)]]"
proof -
  have c: "str_lower ''CSV'' = ''csv''" and x: "str_lower ''Excel'' = ''excel''"
    by (simp_all add: str_lower_def char_lower_def)
  show ?thesis
    using c x
      read_dispatches_to_handler [of "''CSV''" example_world "\<lparr>reader_factory_cfg = PInt 7\<rparr>"
        "''data.csv''" "[(''sep'', PStr '';'')]" "[]"]
      read_dispatches_to_handler [of "''Excel''" example_world "\<lparr>reader_factory_cfg = PInt 7\<rparr>"
        "''data.xlsx''" "[(''header'', PInt 0)]" "[]"]
    by (simp add: CSVReader_read_def ExcelReader_read_def example_world_def)
qed

text \<open>
  C3. When the lower-cased format name is neither \<^verbatim>\<open>csv\<close> nor \<^verbatim>\<open>excel\<close>, the call
  raises \<^verbatim>\<open>KeyError\<close> with the lower-cased name, and the trace is the one it was given:
  no reader was created and no file was read.
\<close>

theorem read_unknown_format:
  "str_lower source \<noteq> ''csv'' \<Longrightarrow> str_lower source \<noteq> ''excel'' \<Longrightarrow>
     DataReaderFactory_read w self source p kw tr = (Inl (KeyError (str_lower source)), tr)"
  by (simp add: DataReaderFactory_read_def reader_dict_def)

theorem read_unknown_format_witness:
  "str_lower ''JSON'' \<noteq> ''csv'' \<and> str_lower ''JSON'' \<noteq> ''excel'' \<and>
   DataReaderFactory_read example_world \<lparr>reader_factory_cfg = PNone\<rparr> ''JSON'' ''data.csv'' [] []
     = (Inl (KeyError ''json''), [])"
proof -
  have l: "str_lower ''JSON'' = ''json''"
    by (simp add: str_lower_def char_lower_def)
  show ?thesis
    using read_unknown_format [of "''JSON''" example_world "\<lparr>reader_factory_cfg = PNone\<rparr>"
        "''data.csv''" "[]" "[]"]
    by (simp add: l)
qed

text \<open>
  C4. \<^verbatim>\<open>DataWriterFactory.write\<close> raises \<^verbatim>\<open>KeyError\<close> for every format name, table,
  path and options, and leaves the trace as it was: nothing is written.
\<close>

theorem write_always_key_error:
  "DataWriterFactory_write w self source df p kw tr = (Inl (KeyError (str_lower source)), tr)"
  by (simp add: DataWriterFactory_write_def writers_dict_def)


section \<open>Properties of \<^verbatim>\<open>dict_to_namespace\<close>\<close>

lemma convert_items_keys:
  "convert_items kvs = Inr kvs' \<Longrightarrow> map fst kvs' = map fst kvs"
  by (induction kvs arbitrary: kvs') (auto split: sum.splits)











section \<open>Properties of \<^verbatim>\<open>initialize\<close>\<close>

lemma lookup_pd_module_globals: "lookup_pd_read_excel module_globals = Inl (NameError ''pd'')"
  by (simp add: lookup_pd_read_excel_def module_globals_def)

lemma lookup_pd_pandas_globals: "lookup_pd_read_excel pandas_globals = Inr ()"
  by (simp add: lookup_pd_read_excel_def pandas_globals_def)

lemma load_yaml_shift:
  "load_yaml w p tr0 = (r, t) \<Longrightarrow> load_yaml w p (tr @ tr0) = (r, tr @ t)"
  by (auto simp: load_yaml_def split: sum.splits)

lemma load_schema_shift:
  "load_schema g w tr0 = (r, t) \<Longrightarrow> load_schema g w (tr @ tr0) = (r, tr @ t)"
  by (auto simp: load_schema_def Let_def split: sum.splits)

lemma build_ns_dict_shift:
  "build_ns_dict w y sd cd tr0 = (r, t) \<Longrightarrow> build_ns_dict w y sd cd (tr @ tr0) = (r, tr @ t)"
  by (auto simp: build_ns_dict_def split: sum.splits)

lemma initialize_in_self: "fst (snd (initialize_in g w self tr)) = self"
  by (simp add: initialize_in_def split: prod.splits sum.splits)

lemma initialize_in_shift:
  assumes "initialize_in g w self tr0 = (r, s, t)"
  shows "initialize_in g w self (tr @ tr0) = (r, s, tr @ t)"
proof -
  obtain r1 t1 where a: "load_yaml w (yaml_path self) tr0 = (r1, t1)" by force
  note a' = load_yaml_shift [OF a, of tr]
  show ?thesis
  proof (cases r1)
    case (Inl e)
    with assms a a' show ?thesis by (simp add: initialize_in_def)
  next
    case y: (Inr y)
    obtain r2 t2 where b: "load_schema g w t1 = (r2, t2)" by force
    note b' = load_schema_shift [OF b, of tr]
    show ?thesis
    proof (cases r2)
      case (Inl e)
      with assms y a a' b b' show ?thesis by (simp add: initialize_in_def)
    next
      case (Inr sc)
      obtain sd cd where sc: "sc = (sd, cd)" by force
      obtain r3 t3 where c: "build_ns_dict w y sd cd t2 = (r3, t3)" by force
      note c' = build_ns_dict_shift [OF c, of tr]
      from assms y Inr sc a a' b b' c c' show ?thesis
        by (cases r3) (auto simp: initialize_in_def)
    qed
  qed
qed

lemmas example_defs = example_world_def example_yaml_def example_frame_def

lemmas stage_defs = load_yaml_def load_schema_def read_columns_def df_getitem_def df_loc_def
  series_to_dict_def schema_key_def col_key_def str_split_def is_space_def
  str_upper_def char_upper_def str_lower_def char_lower_def

text \<open>
  With \<^verbatim>\<open>pd\<close> bound to pandas the rest of the method does what it is written for: on the
  example inputs it returns the namespace with \<^verbatim>\<open>Schema.ACCOUNT_NAME\<close> the whole sheet,
  \<^verbatim>\<open>Col.Account_Name\<close> the one flagged row, \<^verbatim>\<open>Path.ENV\<close>, the secrets and the
  \<^verbatim>\<open>Param\<close> block.
\<close>

lemma initialize_with_pandas:
  "initialize_in pandas_globals example_world \<lparr>yaml_path = ''config.yaml''\<rparr> []
     = (Inr (PNamespace
          [(''Schema'', PNamespace [(''ACCOUNT_NAME'', PFrame example_frame)]),
           (''Col'', PNamespace [(''Account_Name'', PNamespace [(''acc_id'', PStr ''Account Id'')])]),
           (''Path'', PNamespace [(''ENV'', PStr ''secrets.env'')]),
           (''Secret'', PNamespace [(''TOKEN'', PStr ''abc'')]),
           (''Param'', PNamespace [(''rate'', PInt 3)])]),
        \<lparr>yaml_path = ''config.yaml''\<rparr>,
        [OpenFile ''config.yaml'', YamlSafeLoad ''Path: ...'', CloseFile ''config.yaml'',
         PdReadExcel ''data/config/schema.xlsx''
           [(''sheet_name'', PNone), (''index_col'', PStr ''Variable'')],
         DotenvValues (YStr ''secrets.env'')])"
  by (simp add: initialize_in_def stage_defs example_defs build_ns_dict_def secret_dict_def
        SimpleNamespace_def lookup_pd_pandas_globals)

text \<open>
  Two sheets whose names differ only in the run of spaces between the words get the same
  keys, and the later sheet replaces the earlier one under \<^verbatim>\<open>Schema\<close> and \<^verbatim>\<open>Col\<close>.
\<close>

lemma load_sheets_key_collision:
  "load_sheets [(''Account Name'', example_frame),
                (''Account  Name'', example_frame\<lparr>df_index := [KStr ''a'', KStr ''b'', KStr ''c'']\<rparr>)] [] []
     = Inr ([(KStr ''ACCOUNT_NAME'',
              PFrame (example_frame\<lparr>df_index := [KStr ''a'', KStr ''b'', KStr ''c'']\<rparr>))],
            [(KStr ''Account_Name'', PDict [(KStr ''a'', PStr ''Account Id'')])])"
  by (simp add: stage_defs example_defs)

text \<open>
  C5. Under the module's own global namespace every call of \<^verbatim>\<open>initialize\<close> fails; and
  when the YAML file opens and parses, the call raises \<^verbatim>\<open>NameError\<close> for \<^verbatim>\<open>pd\<close>
  right after closing the file, before the spreadsheet is touched.
\<close>

theorem initialize_name_error:
  "(\<exists>e. fst (initialize w self tr) = Inl e) \<and>
   (builtin_open w (yaml_path self) = Inr c \<and> yaml_safe_load w c = Inr y \<longrightarrow>
      initialize w self tr
        = (Inl (NameError ''pd''), self,
           tr @ [OpenFile (yaml_path self), YamlSafeLoad c, CloseFile (yaml_path self)]))"
  by (auto simp: initialize_def initialize_in_def load_yaml_def load_schema_def
        lookup_pd_module_globals split: sum.splits)

theorem initialize_name_error_witness:
  "builtin_open example_world (yaml_path \<lparr>yaml_path = ''config.yaml''\<rparr>) = Inr ''Path: ...'' \<and>
   yaml_safe_load example_world ''Path: ...'' = Inr example_yaml \<and>
   initialize example_world \<lparr>yaml_path = ''config.yaml''\<rparr> []
     = (Inl (NameError ''pd''), \<lparr>yaml_path = ''config.yaml''\<rparr>,
        [OpenFile ''config.yaml'', YamlSafeLoad ''Path: ...'', CloseFile ''config.yaml''])"
proof -
  have h: "builtin_open example_world (yaml_path \<lparr>yaml_path = ''config.yaml''\<rparr>) = Inr ''Path: ...'' \<and>
           yaml_safe_load example_world ''Path: ...'' = Inr example_yaml"
    by (simp add: example_world_def)
  show ?thesis
    using h initialize_name_error [of example_world "\<lparr>yaml_path = ''config.yaml''\<rparr>" "[]"
        "''Path: ...''" example_yaml]
    by simp
qed

text \<open>
  C6 (each sheet is stored whole under \<^verbatim>\<open>Schema\<close> and filtered under \<^verbatim>\<open>Col\<close>). The
  code does not get there: with a schema spreadsheet holding the sheet \<^verbatim>\<open>Account Name\<close>
  with exactly one flagged row, \<^verbatim>\<open>initialize\<close> raises \<^verbatim>\<open>NameError\<close> for \<^verbatim>\<open>pd\<close>
  and never reads the spreadsheet (the trace ends with closing the YAML file). The sibling
  modules \<^verbatim>\<open>csv.py\<close> and \<^verbatim>\<open>excel.py\<close> have the \<^verbatim>\<open>import pandas as pd\<close> that
  \<^verbatim>\<open>name_space.py\<close> lacks.
\<close>

theorem initialize_loses_schema_sheet:
  "pd_read_excel_sheets example_world ''data/config/schema.xlsx'' ''Variable''
     = Inr [(''Account Name'', example_frame)] \<and>
   initialize example_world \<lparr>yaml_path = ''config.yaml''\<rparr> []
     = (Inl (NameError ''pd''), \<lparr>yaml_path = ''config.yaml''\<rparr>,
        [OpenFile ''config.yaml'', YamlSafeLoad ''Path: ...'', CloseFile ''config.yaml''])"
  by (simp add: initialize_def initialize_in_def load_yaml_def load_schema_def
        lookup_pd_module_globals example_world_def)

text \<open>
  C7 (the namespace exposes \<^verbatim>\<open>Path.ENV\<close>, \<^verbatim>\<open>Param\<close> and the secrets). The YAML file
  of the example defines \<^verbatim>\<open>Path.ENV = "secrets.env"\<close> and a \<^verbatim>\<open>Param\<close> block and
  parses; \<^verbatim>\<open>initialize\<close> still returns no namespace, it raises \<^verbatim>\<open>NameError\<close> for
  \<^verbatim>\<open>pd\<close>.
\<close>

theorem initialize_loses_yaml_blocks:
  "load_yaml example_world ''config.yaml'' []
     = (Inr example_yaml, [OpenFile ''config.yaml'', YamlSafeLoad ''Path: ...'', CloseFile ''config.yaml'']) \<and>
   yaml_getitem example_yaml ''Path'' = Inr (YDict [(KStr ''ENV'', YStr ''secrets.env'')]) \<and>
   yaml_getitem example_yaml ''Param'' = Inr (YDict [(KStr ''rate'', YInt 3)]) \<and>
   fst (initialize example_world \<lparr>yaml_path = ''config.yaml''\<rparr> []) = Inl (NameError ''pd'')"
  by (simp add: initialize_def initialize_in_def load_yaml_def load_schema_def
        lookup_pd_module_globals example_world_def example_yaml_def)

text \<open>
  C8 (two calls with the same input files yield structurally equal namespace objects).
  The code yields none: called twice on the same factory with \<^verbatim>\<open>config.yaml\<close>, the
  schema spreadsheet and the secrets file all in order, both calls raise \<^verbatim>\<open>NameError\<close>
  for \<^verbatim>\<open>pd\<close>, each right after closing the YAML file. This is the missing
  \<^verbatim>\<open>import pandas as pd\<close> of C5, C6 and C7.
\<close>

theorem initialize_twice_yields_no_namespace:
  "initialize_twice module_globals example_world \<lparr>yaml_path = ''config.yaml''\<rparr> []
     = (Inl (NameError ''pd''), Inl (NameError ''pd''), \<lparr>yaml_path = ''config.yaml''\<rparr>,
        [OpenFile ''config.yaml'', YamlSafeLoad ''Path: ...'', CloseFile ''config.yaml'',
         OpenFile ''config.yaml'', YamlSafeLoad ''Path: ...'', CloseFile ''config.yaml''])"
  by (simp add: initialize_twice_def initialize_in_def load_yaml_def load_schema_def
        lookup_pd_module_globals example_world_def)

text \<open>
  C10. As the module has it, every run of \<^verbatim>\<open>initialize\<close> fails: it returns an error and
  never a namespace, and the factory it returns is the one it was given. An unreadable
  YAML file fails at \<^verbatim>\<open>open\<close> with that error and nothing else is touched; YAML that
  does not parse fails with the parser's error once the file is closed; and when the YAML
  parses, the run fails with \<^verbatim>\<open>NameError\<close> before the spreadsheet, the \<^verbatim>\<open>Path.ENV\<close>
  key or the secrets file is looked at, so also when one of these is missing or malformed.
\<close>

theorem initialize_fails_unchanged:
  "(\<exists>e evs. initialize w self tr = (Inl e, self, tr @ evs)) \<and>
   (builtin_open w (yaml_path self) = Inl e \<longrightarrow>
      initialize w self tr = (Inl e, self, tr @ [OpenFile (yaml_path self)])) \<and>
   (builtin_open w (yaml_path self) = Inr c \<and> yaml_safe_load w c = Inl e \<longrightarrow>
      initialize w self tr
        = (Inl e, self, tr @ [OpenFile (yaml_path self), YamlSafeLoad c, CloseFile (yaml_path self)])) \<and>
   (builtin_open w (yaml_path self) = Inr c \<and> yaml_safe_load w c = Inr y \<longrightarrow>
      initialize w self tr
        = (Inl (NameError ''pd''), self,
           tr @ [OpenFile (yaml_path self), YamlSafeLoad c, CloseFile (yaml_path self)]))"
  by (auto simp: initialize_def initialize_in_def load_yaml_def load_schema_def
        lookup_pd_module_globals split: sum.splits)

theorem initialize_fails_unchanged_witness:
  "builtin_open example_world ''missing.yaml'' = Inl (OSError ''missing.yaml'') \<and>
   initialize example_world \<lparr>yaml_path = ''missing.yaml''\<rparr> []
     = (Inl (OSError ''missing.yaml''), \<lparr>yaml_path = ''missing.yaml''\<rparr>, [OpenFile ''missing.yaml'']) \<and>
   yaml_safe_load world_bad_yaml ''Path: ...'' = Inl (YAMLError ''Path: ...'') \<and>
   initialize world_bad_yaml \<lparr>yaml_path = ''config.yaml''\<rparr> []
     = (Inl (YAMLError ''Path: ...''), \<lparr>yaml_path = ''config.yaml''\<rparr>,
        [OpenFile ''config.yaml'', YamlSafeLoad ''Path: ...'', CloseFile ''config.yaml'']) \<and>
   pd_read_excel_sheets world_no_schema ''data/config/schema.xlsx'' ''Variable''
     = Inl (OSError ''data/config/schema.xlsx'') \<and>
   initialize world_no_schema \<lparr>yaml_path = ''config.yaml''\<rparr> []
     = (Inl (NameError ''pd''), \<lparr>yaml_path = ''config.yaml''\<rparr>,
        [OpenFile ''config.yaml'', YamlSafeLoad ''Path: ...'', CloseFile ''config.yaml'']) \<and>
   read_columns \<lparr>df_index = [KStr ''acc_id''], df_columns = [(''Name'', StrCol [''Account Id''])]\<rparr>
     = Inl (KeyError ''IS Derived?'') \<and>
   initialize world_bad_sheet \<lparr>yaml_path = ''config.yaml''\<rparr> []
     = (Inl (NameError ''pd''), \<lparr>yaml_path = ''config.yaml''\<rparr>,
        [OpenFile ''config.yaml'', YamlSafeLoad ''Path: ...'', CloseFile ''config.yaml'']) \<and>
   yaml_getitem (YDict [(KStr ''Path'', YDict []), (KStr ''Param'', YDict [])]) ''Path'' = Inr (YDict []) \<and>
   yaml_getitem (YDict []) ''ENV'' = Inl (KeyError ''ENV'') \<and>
   initialize world_no_env \<lparr>yaml_path = ''config.yaml''\<rparr> []
     = (Inl (NameError ''pd''), \<lparr>yaml_path = ''config.yaml''\<rparr>,
        [OpenFile ''config.yaml'', YamlSafeLoad ''Path: ...'', CloseFile ''config.yaml'']) \<and>
   dotenv_values world_no_secrets (YStr ''secrets.env'') = Inl (OSError ''secrets.env'') \<and>
   initialize world_no_secrets \<lparr>yaml_path = ''config.yaml''\<rparr> []
     = (Inl (NameError ''pd''), \<lparr>yaml_path = ''config.yaml''\<rparr>,
        [OpenFile ''config.yaml'', YamlSafeLoad ''Path: ...'', CloseFile ''config.yaml''])"
proof -
  have modes:
    "builtin_open example_world ''missing.yaml'' = Inl (OSError ''missing.yaml'')"
    "yaml_safe_load world_bad_yaml ''Path: ...'' = Inl (YAMLError ''Path: ...'')"
    "pd_read_excel_sheets world_no_schema ''data/config/schema.xlsx'' ''Variable''
       = Inl (OSError ''data/config/schema.xlsx'')"
    "yaml_getitem (YDict [(KStr ''Path'', YDict []), (KStr ''Param'', YDict [])]) ''Path'' = Inr (YDict [])"
    "yaml_getitem (YDict []) ''ENV'' = Inl (KeyError ''ENV'')"
    "dotenv_values world_no_secrets (YStr ''secrets.env'') = Inl (OSError ''secrets.env'')"
    "read_columns \<lparr>df_index = [KStr ''acc_id''], df_columns = [(''Name'', StrCol [''Account Id''])]\<rparr>
       = Inl (KeyError ''IS Derived?'')"
    by (simp_all add: example_world_def world_bad_yaml_def world_no_schema_def world_no_secrets_def
          read_columns_def df_getitem_def)
  have opens:
    "builtin_open world_bad_yaml ''config.yaml'' = Inr ''Path: ...''"
    "builtin_open world_no_schema ''config.yaml'' = Inr ''Path: ...''"
    "builtin_open world_no_env ''config.yaml'' = Inr ''Path: ...''"
    "builtin_open world_no_secrets ''config.yaml'' = Inr ''Path: ...''"
    "builtin_open world_bad_sheet ''config.yaml'' = Inr ''Path: ...''"
    by (simp_all add: example_world_def world_bad_yaml_def world_no_schema_def world_no_env_def
          world_no_secrets_def world_bad_sheet_def)
  have parses:
    "yaml_safe_load world_no_schema ''Path: ...'' = Inr example_yaml"
    "yaml_safe_load world_no_env ''Path: ...''
       = Inr (YDict [(KStr ''Path'', YDict []), (KStr ''Param'', YDict [])])"
    "yaml_safe_load world_no_secrets ''Path: ...'' = Inr example_yaml"
    "yaml_safe_load world_bad_sheet ''Path: ...'' = Inr example_yaml"
    by (simp_all add: example_world_def world_no_schema_def world_no_env_def world_no_secrets_def
          world_bad_sheet_def)
  have c1: "initialize example_world \<lparr>yaml_path = ''missing.yaml''\<rparr> []
     = (Inl (OSError ''missing.yaml''), \<lparr>yaml_path = ''missing.yaml''\<rparr>, [OpenFile ''missing.yaml''])"
    using modes(1)
      initialize_fails_unchanged [where w = example_world
        and self = "\<lparr>yaml_path = ''missing.yaml''\<rparr>" and tr = "[]"
        and e = "OSError ''missing.yaml''"]
    by simp
  have c2: "initialize world_bad_yaml \<lparr>yaml_path = ''config.yaml''\<rparr> []
     = (Inl (YAMLError ''Path: ...''), \<lparr>yaml_path = ''config.yaml''\<rparr>,
        [OpenFile ''config.yaml'', YamlSafeLoad ''Path: ...'', CloseFile ''config.yaml''])"
    using modes(2) opens(1)
      initialize_fails_unchanged [where w = world_bad_yaml
        and self = "\<lparr>yaml_path = ''config.yaml''\<rparr>" and tr = "[]"
        and e = "YAMLError ''Path: ...''" and c = "''Path: ...''"]
    by simp
  have c3: "initialize world_no_schema \<lparr>yaml_path = ''config.yaml''\<rparr> []
     = (Inl (NameError ''pd''), \<lparr>yaml_path = ''config.yaml''\<rparr>,
        [OpenFile ''config.yaml'', YamlSafeLoad ''Path: ...'', CloseFile ''config.yaml''])"
    using opens(2) parses(1)
      initialize_fails_unchanged [where w = world_no_schema
        and self = "\<lparr>yaml_path = ''config.yaml''\<rparr>" and tr = "[]"
        and c = "''Path: ...''" and y = example_yaml]
    by simp
  have c4: "initialize world_no_env \<lparr>yaml_path = ''config.yaml''\<rparr> []
     = (Inl (NameError ''pd''), \<lparr>yaml_path = ''config.yaml''\<rparr>,
        [OpenFile ''config.yaml'', YamlSafeLoad ''Path: ...'', CloseFile ''config.yaml''])"
    using opens(3) parses(2)
      initialize_fails_unchanged [where w = world_no_env
        and self = "\<lparr>yaml_path = ''config.yaml''\<rparr>" and tr = "[]"
        and c = "''Path: ...''"
        and y = "YDict [(KStr ''Path'', YDict []), (KStr ''Param'', YDict [])]"]
    by simp
  have c5: "initialize world_no_secrets \<lparr>yaml_path = ''config.yaml''\<rparr> []
     = (Inl (NameError ''pd''), \<lparr>yaml_path = ''config.yaml''\<rparr>,
        [OpenFile ''config.yaml'', YamlSafeLoad ''Path: ...'', CloseFile ''config.yaml''])"
    using opens(4) parses(3)
      initialize_fails_unchanged [where w = world_no_secrets
        and self = "\<lparr>yaml_path = ''config.yaml''\<rparr>" and tr = "[]"
        and c = "''Path: ...''" and y = example_yaml]
    by simp
  have c6: "initialize world_bad_sheet \<lparr>yaml_path = ''config.yaml''\<rparr> []
     = (Inl (NameError ''pd''), \<lparr>yaml_path = ''config.yaml''\<rparr>,
        [OpenFile ''config.yaml'', YamlSafeLoad ''Path: ...'', CloseFile ''config.yaml''])"
    using opens(5) parses(4)
      initialize_fails_unchanged [where w = world_bad_sheet
        and self = "\<lparr>yaml_path = ''config.yaml''\<rparr>" and tr = "[]"
        and c = "''Path: ...''" and y = example_yaml]
    by simp
  show ?thesis
    using modes c1 c2 c3 c4 c5 c6 by simp
qed


subsection \<open>With \<^verbatim>\<open>pd\<close> bound\<close>

text \<open>
  What the rest of the method does in a global namespace that binds \<^verbatim>\<open>pd\<close> to pandas,
  as the sibling modules do. In any namespace, two calls in a row return the same result,
  leave the factory as it was, and the second repeats the outside calls of the first; on
  the example inputs both return the same namespace.
\<close>

lemma initialize_twice_same:
  "\<exists>r evs. initialize_in g w self [] = (r, self, evs) \<and>
           initialize_twice g w self tr = (r, r, self, tr @ evs @ evs)"
proof -
  obtain r s evs where 0: "initialize_in g w self [] = (r, s, evs)"
    by (metis prod_cases3)
  have s: "s = self"
    using initialize_in_self [of g w self "[]"] 0 by simp
  have first: "initialize_in g w self tr = (r, self, tr @ evs)"
    using initialize_in_shift [OF 0, of tr] s by simp
  have second: "initialize_in g w self (tr @ evs) = (r, self, tr @ evs @ evs)"
    using initialize_in_shift [OF 0, of "tr @ evs"] s by simp
  show ?thesis
    using 0 s first second by (simp add: initialize_twice_def)
qed

lemma initialize_twice_with_pandas:
  "initialize_twice pandas_globals example_world \<lparr>yaml_path = ''config.yaml''\<rparr> []
     = (Inr (PNamespace
          [(''Schema'', PNamespace [(''ACCOUNT_NAME'', PFrame example_frame)]),
           (''Col'', PNamespace [(''Account_Name'', PNamespace [(''acc_id'', PStr ''Account Id'')])]),
           (''Path'', PNamespace [(''ENV'', PStr ''secrets.env'')]),
           (''Secret'', PNamespace [(''TOKEN'', PStr ''abc'')]),
           (''Param'', PNamespace [(''rate'', PInt 3)])]),
        Inr (PNamespace
          [(''Schema'', PNamespace [(''ACCOUNT_NAME'', PFrame example_frame)]),
           (''Col'', PNamespace [(''Account_Name'', PNamespace [(''acc_id'', PStr ''Account Id'')])]),
           (''Path'', PNamespace [(''ENV'', PStr ''secrets.env'')]),
           (''Secret'', PNamespace [(''TOKEN'', PStr ''abc'')]),
           (''Param'', PNamespace [(''rate'', PInt 3)])]),
        \<lparr>yaml_path = ''config.yaml''\<rparr>,
        [OpenFile ''config.yaml'', YamlSafeLoad ''Path: ...'', CloseFile ''config.yaml'',
         PdReadExcel ''data/config/schema.xlsx''
           [(''sheet_name'', PNone), (''index_col'', PStr ''Variable'')],
         DotenvValues (YStr ''secrets.env''),
         OpenFile ''config.yaml'', YamlSafeLoad ''Path: ...'', CloseFile ''config.yaml'',
         PdReadExcel ''data/config/schema.xlsx''
           [(''sheet_name'', PNone), (''index_col'', PStr ''Variable'')],
         DotenvValues (YStr ''secrets.env'')])"
  using initialize_with_pandas
    initialize_in_shift [OF initialize_with_pandas,
      of "[OpenFile ''config.yaml'', YamlSafeLoad ''Path: ...'', CloseFile ''config.yaml'',
           PdReadExcel ''data/config/schema.xlsx''
             [(''sheet_name'', PNone), (''index_col'', PStr ''Variable'')],
           DotenvValues (YStr ''secrets.env'')]"]
  by (simp add: initialize_twice_def)

text \<open>
  In any namespace the factory is never changed, and a failing step ends the run with
  that step's error and no later step in the trace: an unreadable YAML file, YAML that
  does not parse, a spreadsheet that cannot be read, a sheet without the expected columns,
  a missing \<^verbatim>\<open>Path\<close> or \<^verbatim>\<open>Path.ENV\<close> key, a secrets file that cannot be read.
\<close>

lemma initialize_in_failure_modes:
  "fst (snd (initialize_in g w self tr)) = self \<and>
   (builtin_open w (yaml_path self) = Inl e \<longrightarrow>
      initialize_in g w self tr = (Inl e, self, tr @ [OpenFile (yaml_path self)])) \<and>
   (builtin_open w (yaml_path self) = Inr c \<and> yaml_safe_load w c = Inl e \<longrightarrow>
      initialize_in g w self tr
        = (Inl e, self, tr @ [OpenFile (yaml_path self), YamlSafeLoad c, CloseFile (yaml_path self)])) \<and>
   (load_yaml w (yaml_path self) tr = (Inr y, tr1) \<and> lookup_pd_read_excel g = Inr () \<and>
    pd_read_excel_sheets w ''data/config/schema.xlsx'' ''Variable'' = Inl e \<longrightarrow>
      initialize_in g w self tr
        = (Inl e, self, tr1 @ [PdReadExcel ''data/config/schema.xlsx''
                                 [(''sheet_name'', PNone), (''index_col'', PStr ''Variable'')]])) \<and>
   (load_yaml w (yaml_path self) tr = (Inr y, tr1) \<and> lookup_pd_read_excel g = Inr () \<and>
    pd_read_excel_sheets w ''data/config/schema.xlsx'' ''Variable'' = Inr sheets \<and>
    load_sheets sheets [] [] = Inl e \<longrightarrow>
      initialize_in g w self tr
        = (Inl e, self, tr1 @ [PdReadExcel ''data/config/schema.xlsx''
                                 [(''sheet_name'', PNone), (''index_col'', PStr ''Variable'')]])) \<and>
   (load_yaml w (yaml_path self) tr = (Inr y, tr1) \<and> load_schema g w tr1 = (Inr sc, tr2) \<and>
    yaml_getitem y ''Path'' = Inl e \<longrightarrow>
      initialize_in g w self tr = (Inl e, self, tr2)) \<and>
   (load_yaml w (yaml_path self) tr = (Inr y, tr1) \<and> load_schema g w tr1 = (Inr sc, tr2) \<and>
    yaml_getitem y ''Path'' = Inr pv \<and> yaml_getitem pv ''ENV'' = Inl e \<longrightarrow>
      initialize_in g w self tr = (Inl e, self, tr2)) \<and>
   (load_yaml w (yaml_path self) tr = (Inr y, tr1) \<and> load_schema g w tr1 = (Inr sc, tr2) \<and>
    yaml_getitem y ''Path'' = Inr pv \<and> yaml_getitem pv ''ENV'' = Inr ev \<and>
    dotenv_values w ev = Inl e \<longrightarrow>
      initialize_in g w self tr = (Inl e, self, tr2 @ [DotenvValues ev]))"
proof (intro conjI impI)
  show "fst (snd (initialize_in g w self tr)) = self" by (rule initialize_in_self)
qed (auto simp: initialize_in_def load_yaml_def load_schema_def build_ns_dict_def Let_def
       split: sum.splits prod.splits)

lemma initialize_in_failure_examples:
  "initialize_in pandas_globals example_world \<lparr>yaml_path = ''missing.yaml''\<rparr> []
     = (Inl (OSError ''missing.yaml''), \<lparr>yaml_path = ''missing.yaml''\<rparr>, [OpenFile ''missing.yaml'']) \<and>
   initialize_in pandas_globals world_bad_yaml \<lparr>yaml_path = ''config.yaml''\<rparr> []
     = (Inl (YAMLError ''Path: ...''), \<lparr>yaml_path = ''config.yaml''\<rparr>,
        [OpenFile ''config.yaml'', YamlSafeLoad ''Path: ...'', CloseFile ''config.yaml'']) \<and>
   initialize_in pandas_globals world_no_schema \<lparr>yaml_path = ''config.yaml''\<rparr> []
     = (Inl (OSError ''data/config/schema.xlsx''), \<lparr>yaml_path = ''config.yaml''\<rparr>,
        [OpenFile ''config.yaml'', YamlSafeLoad ''Path: ...'', CloseFile ''config.yaml'',
         PdReadExcel ''data/config/schema.xlsx''
           [(''sheet_name'', PNone), (''index_col'', PStr ''Variable'')]]) \<and>
   initialize_in pandas_globals world_bad_sheet \<lparr>yaml_path = ''config.yaml''\<rparr> []
     = (Inl (KeyError ''IS Derived?''), \<lparr>yaml_path = ''config.yaml''\<rparr>,
        [OpenFile ''config.yaml'', YamlSafeLoad ''Path: ...'', CloseFile ''config.yaml'',
         PdReadExcel ''data/config/schema.xlsx''
           [(''sheet_name'', PNone), (''index_col'', PStr ''Variable'')]]) \<and>
   initialize_in pandas_globals world_no_path \<lparr>yaml_path = ''config.yaml''\<rparr> []
     = (Inl (KeyError ''Path''), \<lparr>yaml_path = ''config.yaml''\<rparr>,
        [OpenFile ''config.yaml'', YamlSafeLoad ''Path: ...'', CloseFile ''config.yaml'',
         PdReadExcel ''data/config/schema.xlsx''
           [(''sheet_name'', PNone), (''index_col'', PStr ''Variable'')]]) \<and>
   initialize_in pandas_globals world_no_env \<lparr>yaml_path = ''config.yaml''\<rparr> []
     = (Inl (KeyError ''ENV''), \<lparr>yaml_path = ''config.yaml''\<rparr>,
        [OpenFile ''config.yaml'', YamlSafeLoad ''Path: ...'', CloseFile ''config.yaml'',
         PdReadExcel ''data/config/schema.xlsx''
           [(''sheet_name'', PNone), (''index_col'', PStr ''Variable'')]]) \<and>
   initialize_in pandas_globals world_no_secrets \<lparr>yaml_path = ''config.yaml''\<rparr> []
     = (Inl (OSError ''secrets.env''), \<lparr>yaml_path = ''config.yaml''\<rparr>,
        [OpenFile ''config.yaml'', YamlSafeLoad ''Path: ...'', CloseFile ''config.yaml'',
         PdReadExcel ''data/config/schema.xlsx''
           [(''sheet_name'', PNone), (''index_col'', PStr ''Variable'')],
         DotenvValues (YStr ''secrets.env'')])"
proof -
  have c1: "initialize_in pandas_globals example_world \<lparr>yaml_path = ''missing.yaml''\<rparr> []
     = (Inl (OSError ''missing.yaml''), \<lparr>yaml_path = ''missing.yaml''\<rparr>, [OpenFile ''missing.yaml''])"
    using initialize_in_failure_modes [where g = pandas_globals and w = example_world
        and self = "\<lparr>yaml_path = ''missing.yaml''\<rparr>" and tr = "[]"
        and e = "OSError ''missing.yaml''"]
    by (simp add: example_world_def)
  have c2: "initialize_in pandas_globals world_bad_yaml \<lparr>yaml_path = ''config.yaml''\<rparr> []
     = (Inl (YAMLError ''Path: ...''), \<lparr>yaml_path = ''config.yaml''\<rparr>,
        [OpenFile ''config.yaml'', YamlSafeLoad ''Path: ...'', CloseFile ''config.yaml''])"
    using initialize_in_failure_modes [where g = pandas_globals and w = world_bad_yaml
        and self = "\<lparr>yaml_path = ''config.yaml''\<rparr>" and tr = "[]"
        and e = "YAMLError ''Path: ...''" and c = "''Path: ...''"]
    by (simp add: world_bad_yaml_def example_world_def)
  have c3: "initialize_in pandas_globals world_no_schema \<lparr>yaml_path = ''config.yaml''\<rparr> []
     = (Inl (OSError ''data/config/schema.xlsx''), \<lparr>yaml_path = ''config.yaml''\<rparr>,
        [OpenFile ''config.yaml'', YamlSafeLoad ''Path: ...'', CloseFile ''config.yaml'',
         PdReadExcel ''data/config/schema.xlsx''
           [(''sheet_name'', PNone), (''index_col'', PStr ''Variable'')]])"
    using initialize_in_failure_modes [where g = pandas_globals and w = world_no_schema
        and self = "\<lparr>yaml_path = ''config.yaml''\<rparr>" and tr = "[]"
        and e = "OSError ''data/config/schema.xlsx''" and y = example_yaml
        and ?tr1.0 = "[OpenFile ''config.yaml'', YamlSafeLoad ''Path: ...'', CloseFile ''config.yaml'']"]
    by (simp add: world_no_schema_def example_world_def load_yaml_def lookup_pd_pandas_globals)
  have c4: "initialize_in pandas_globals world_bad_sheet \<lparr>yaml_path = ''config.yaml''\<rparr> []
     = (Inl (KeyError ''IS Derived?''), \<lparr>yaml_path = ''config.yaml''\<rparr>,
        [OpenFile ''config.yaml'', YamlSafeLoad ''Path: ...'', CloseFile ''config.yaml'',
         PdReadExcel ''data/config/schema.xlsx''
           [(''sheet_name'', PNone), (''index_col'', PStr ''Variable'')]])"
    using initialize_in_failure_modes [where g = pandas_globals and w = world_bad_sheet
        and self = "\<lparr>yaml_path = ''config.yaml''\<rparr>" and tr = "[]"
        and e = "KeyError ''IS Derived?''" and y = example_yaml
        and ?tr1.0 = "[OpenFile ''config.yaml'', YamlSafeLoad ''Path: ...'', CloseFile ''config.yaml'']"
        and sheets = "[(''Account Name'',
                     \<lparr>df_index = [KStr ''acc_id''],
                      df_columns = [(''Name'', StrCol [''Account Id''])]\<rparr>)]"]
    by (simp add: world_bad_sheet_def example_world_def load_yaml_def lookup_pd_pandas_globals
          read_columns_def df_getitem_def)
  have ly: "load_yaml w ''config.yaml'' []
     = (Inr y, [OpenFile ''config.yaml'', YamlSafeLoad ''Path: ...'', CloseFile ''config.yaml''])"
    if "builtin_open w = builtin_open example_world" and "yaml_safe_load w ''Path: ...'' = Inr y"
    for w y
    using that by (simp add: load_yaml_def example_world_def)
  have sch: "load_schema pandas_globals w t
     = (Inr ([(KStr ''ACCOUNT_NAME'', PFrame example_frame)],
             [(KStr ''Account_Name'', PDict [(KStr ''acc_id'', PStr ''Account Id'')])]),
        t @ [PdReadExcel ''data/config/schema.xlsx''
               [(''sheet_name'', PNone), (''index_col'', PStr ''Variable'')]])"
    if "pd_read_excel_sheets w = pd_read_excel_sheets example_world" for w t
    using that by (simp add: stage_defs example_defs lookup_pd_pandas_globals)
  have c5: "initialize_in pandas_globals world_no_path \<lparr>yaml_path = ''config.yaml''\<rparr> []
     = (Inl (KeyError ''Path''), \<lparr>yaml_path = ''config.yaml''\<rparr>,
        [OpenFile ''config.yaml'', YamlSafeLoad ''Path: ...'', CloseFile ''config.yaml'',
         PdReadExcel ''data/config/schema.xlsx''
           [(''sheet_name'', PNone), (''index_col'', PStr ''Variable'')]])"
    using initialize_in_failure_modes [where g = pandas_globals and w = world_no_path
        and self = "\<lparr>yaml_path = ''config.yaml''\<rparr>" and tr = "[]"
        and e = "KeyError ''Path''" and y = "YDict [(KStr ''Param'', YDict [])]"
        and ?tr1.0 = "[OpenFile ''config.yaml'', YamlSafeLoad ''Path: ...'', CloseFile ''config.yaml'']"
        and sc = "([(KStr ''ACCOUNT_NAME'', PFrame example_frame)],
             [(KStr ''Account_Name'', PDict [(KStr ''acc_id'', PStr ''Account Id'')])])"
        and ?tr2.0 = "[OpenFile ''config.yaml'', YamlSafeLoad ''Path: ...'', CloseFile ''config.yaml'',
         PdReadExcel ''data/config/schema.xlsx''
           [(''sheet_name'', PNone), (''index_col'', PStr ''Variable'')]]"]
      ly [of world_no_path "YDict [(KStr ''Param'', YDict [])]"]
      sch [of world_no_path "[OpenFile ''config.yaml'', YamlSafeLoad ''Path: ...'', CloseFile ''config.yaml'']"]
    by (simp add: world_no_path_def)
  have c6: "initialize_in pandas_globals world_no_env \<lparr>yaml_path = ''config.yaml''\<rparr> []
     = (Inl (KeyError ''ENV''), \<lparr>yaml_path = ''config.yaml''\<rparr>,
        [OpenFile ''config.yaml'', YamlSafeLoad ''Path: ...'', CloseFile ''config.yaml'',
         PdReadExcel ''data/config/schema.xlsx''
           [(''sheet_name'', PNone), (''index_col'', PStr ''Variable'')]])"
    using initialize_in_failure_modes [where g = pandas_globals and w = world_no_env
        and self = "\<lparr>yaml_path = ''config.yaml''\<rparr>" and tr = "[]"
        and e = "KeyError ''ENV''"
        and y = "YDict [(KStr ''Path'', YDict []), (KStr ''Param'', YDict [])]"
        and pv = "YDict []"
        and ?tr1.0 = "[OpenFile ''config.yaml'', YamlSafeLoad ''Path: ...'', CloseFile ''config.yaml'']"
        and sc = "([(KStr ''ACCOUNT_NAME'', PFrame example_frame)],
             [(KStr ''Account_Name'', PDict [(KStr ''acc_id'', PStr ''Account Id'')])])"
        and ?tr2.0 = "[OpenFile ''config.yaml'', YamlSafeLoad ''Path: ...'', CloseFile ''config.yaml'',
         PdReadExcel ''data/config/schema.xlsx''
           [(''sheet_name'', PNone), (''index_col'', PStr ''Variable'')]]"]
      ly [of world_no_env "YDict [(KStr ''Path'', YDict []), (KStr ''Param'', YDict [])]"]
      sch [of world_no_env "[OpenFile ''config.yaml'', YamlSafeLoad ''Path: ...'', CloseFile ''config.yaml'']"]
    by (simp add: world_no_env_def)
  have c7: "initialize_in pandas_globals world_no_secrets \<lparr>yaml_path = ''config.yaml''\<rparr> []
     = (Inl (OSError ''secrets.env''), \<lparr>yaml_path = ''config.yaml''\<rparr>,
        [OpenFile ''config.yaml'', YamlSafeLoad ''Path: ...'', CloseFile ''config.yaml'',
         PdReadExcel ''data/config/schema.xlsx''
           [(''sheet_name'', PNone), (''index_col'', PStr ''Variable'')],
         DotenvValues (YStr ''secrets.env'')])"
    using initialize_in_failure_modes [where g = pandas_globals and w = world_no_secrets
        and self = "\<lparr>yaml_path = ''config.yaml''\<rparr>" and tr = "[]"
        and e = "OSError ''secrets.env''"
        and y = example_yaml
        and pv = "YDict [(KStr ''ENV'', YStr ''secrets.env'')]"
        and ev = "YStr ''secrets.env''"
        and ?tr1.0 = "[OpenFile ''config.yaml'', YamlSafeLoad ''Path: ...'', CloseFile ''config.yaml'']"
        and sc = "([(KStr ''ACCOUNT_NAME'', PFrame example_frame)],
             [(KStr ''Account_Name'', PDict [(KStr ''acc_id'', PStr ''Account Id'')])])"
        and ?tr2.0 = "[OpenFile ''config.yaml'', YamlSafeLoad ''Path: ...'', CloseFile ''config.yaml'',
         PdReadExcel ''data/config/schema.xlsx''
           [(''sheet_name'', PNone), (''index_col'', PStr ''Variable'')]]"]
      ly [of world_no_secrets example_yaml]
      sch [of world_no_secrets "[OpenFile ''config.yaml'', YamlSafeLoad ''Path: ...'', CloseFile ''config.yaml'']"]
    by (simp add: world_no_secrets_def example_world_def example_yaml_def)
  show ?thesis
    using c1 c2 c3 c4 c5 c6 c7 by simp
qed

end
